theory Spec2Isabelle
  imports Main "HOL-Library.Word"
begin

section \<open>The outside world of the start commands\<close>

text \<open>
  The functions of package \<open>cmd\<close> talk to collaborators that are not part of the
  verified files: the user (prompts), the local \<open>pastel-cli\<close>, the SSH client, the clock
  and a number of helpers of the package whose bodies live elsewhere.  Every such
  interaction is an \<open>event\<close>.  A run of the program appends its events to a trace; the
  collaborator's answer is taken from an environment, which may look at the whole trace so
  far.  Nothing is assumed about the environment.
\<close>

datatype event =
    Ask string                         \<comment> \<open>\<open>AskUserToContinue(ctx, question)\<close>\<close>
  | PastelCLI "string list"            \<comment> \<open>\<open>RunPastelCLI(ctx, config, args...)\<close>\<close>
  | Sleep nat                          \<comment> \<open>\<open>time.Sleep(n * time.Second)\<close>\<close>
  | SshOutput string                   \<comment> \<open>\<open>sshClient.Cmd(c).Output()\<close>, awaited\<close>
  | SshGoRun string                    \<comment> \<open>\<open>go func() { sshClient.Cmd(c).Run() }()\<close>\<close>
  | SshShellCmd string                 \<comment> \<open>\<open>sshClient.ShellCmd(ctx, c)\<close>\<close>
  | SshScp string string               \<comment> \<open>\<open>sshClient.Scp(local, remote)\<close>\<close>
  | RunPastelNode "bool list" string string
                                       \<comment> \<open>\<open>runPastelNode(ctx, config, flags..., extIP, mnPrivKey)\<close>\<close>
  | StopPastelDAndWait                 \<comment> \<open>\<open>StopPastelDAndWait(ctx, config)\<close>\<close>
  | CheckMasterNodeSync                \<comment> \<open>\<open>CheckMasterNodeSync(ctx, config)\<close>\<close>
  | ParsePastelConf                    \<comment> \<open>\<open>ParsePastelConf(ctx, config)\<close>\<close>
  | GetMasternodeConfData string       \<comment> \<open>\<open>getMasternodeConfData(ctx, config, name)\<close>\<close>
  | GetExternalIPAddress               \<comment> \<open>\<open>utils.GetExternalIPAddress()\<close>\<close>
  | CreateOrUpdateMasternodeConf       \<comment> \<open>\<open>createOrUpdateMasternodeConf(ctx, config)\<close>\<close>
  | CreateOrUpdateSuperNodeConfig      \<comment> \<open>\<open>createOrUpdateSuperNodeConfig(ctx, config)\<close>\<close>
  | BackupConfFile                     \<comment> \<open>\<open>backupConfFile(ctx, config)\<close>\<close>
  | RunStartAliasMasternode string     \<comment> \<open>\<open>runStartAliasMasternode(ctx, config, name)\<close>\<close>

text \<open>
  An answer is a success flag and a text: for a command \<open>err == nil\<close> and the output, for
  a prompt the yes/no decision and the line the user typed.
\<close>

type_synonym reply = "bool \<times> string"

text \<open>
  \<open>constants.ToolType\<close> is a string type with named constants.  The file that declares
  the constants is not among the sources, so the constants used by the modelled code are
  constructors and their strings are a parameter (\<open>toolString\<close> below); \<open>OtherTool\<close>
  stands for every other value.
\<close>

datatype ToolType = DDImgService | PastelD | RQService | DDService | SuperNode | WalletNode
  | OtherTool string

text \<open>
  \<open>RPCPastelMSStatus\<close>: the two fields of the \<open>mnsync status\<close> answer that the code reads.
\<close>

record RPCPastelMSStatus =
  AssetName :: string
  IsSynced :: bool

text \<open>
  The environment.  The JSON decoders belong to the Go library and are parameters;
  \<open>jsonOutputs\<close> yields the entries of the decoded \<open>map[string]string\<close> in the order in
  which \<open>range\<close> visits them, \<open>jsonMNStatus\<close> decodes into an existing struct, as
  \<open>json.Unmarshal(output, &mnstatus)\<close> does.  \<open>masternodeConf\<close> is what
  \<open>getMasternodeConfData\<close> reads from masternode.conf: private key, external IP and port.
  \<open>getSuperNodeConfFile\<close> is \<open>config.Configurer.GetSuperNodeConfFile\<close>, \<open>filepathJoin\<close> is
  \<open>filepath.Join\<close>, \<open>pastelCliName\<close> is \<open>constants.PastelCliName[utils.GetOS()]\<close> and
  \<open>toolString\<close> is the conversion \<open>string(tool)\<close>.
\<close>

record env =
  respond :: "event list \<Rightarrow> event \<Rightarrow> reply"
  jsonOutputs :: "string \<Rightarrow> (string \<times> string) list option"
  jsonMNStatus :: "string \<Rightarrow> RPCPastelMSStatus \<Rightarrow> RPCPastelMSStatus option"
  jsonPastelID :: "string \<Rightarrow> string option"
  masternodeConf :: "event list \<Rightarrow> string \<Rightarrow> string \<times> string \<times> string"
  getSuperNodeConfFile :: "string \<Rightarrow> string"
  filepathJoin :: "string list \<Rightarrow> string"
  pastelCliName :: string
  toolString :: "ToolType \<Rightarrow> string"

text \<open>The package's global flag variables and the trace of the run.\<close>

record state =
  trace :: "event list"
  flagMasterNodeTxID :: string
  flagMasterNodeInd :: string
  flagMasterNodePassPhrase :: string
  flagMasterNodePrivateKey :: string
  flagMasterNodePastelID :: string
  flagNodeExtIP :: string
  flagMasterNodeP2PIP :: string

text \<open>Flags that the modelled functions only read.\<close>

record flags =
  flagMasterNodeName :: string
  flagMasterNodeIsCreate :: bool
  flagMasterNodeIsUpdate :: bool
  flagMasterNodeIsActivate :: bool
  flagMasterNodeConfNew :: bool
  flagMasterNodeConfAdd :: bool

text \<open>
  Go errors: one passed through from a collaborator or from a library call, a decoding
  error, a fresh message, or a wrapped error.
\<close>

datatype error =
    External event
  | Lib string
  | Json string
  | Msg string
  | Wrap string error

text \<open>The result of a function whose loop has no bound: it returned, or the fuel ran out.\<close>

datatype 'a fuelled = Done 'a | OutOfFuel

text \<open>The fields of \<open>configs.Config\<close> that the modelled functions read.\<close>

record Config =
  Network :: string
  WorkingDir :: string
  PastelExecDir :: string
  RemoteWorkingDir :: string
  RemoteHotPastelExecDir :: string
  ReIndex :: bool
  OpMode :: string
  Force :: bool
  RegenRPC :: bool
  RPCPort :: int
  RPCUser :: string
  RPCPwd :: string
  Peers :: string

text \<open>
  Modelled from the spec: the constants \<open>constants.NetworkTestnet\<close> and
  \<open>constants.NetworkRegTest\<close> are not in the source files; the spec names the network
  selector values \<open>mainnet\<close>, \<open>testnet\<close> and \<open>regtest\<close>.
\<close>

definition NetworkTestnet :: string where
  "NetworkTestnet = ''testnet''"

definition NetworkRegTest :: string where
  "NetworkRegTest = ''regtest''"

text \<open>
  \<open>perform\<close> records an event and returns the collaborator's answer; \<open>emit\<close> records an
  event whose answer the code does not use (a sleep, a command started in a goroutine).
\<close>

definition perform :: "env \<Rightarrow> event \<Rightarrow> state \<Rightarrow> reply \<times> state" where
  "perform E e s = (respond E (trace s) e, s\<lparr>trace := trace s @ [e]\<rparr>)"

definition emit :: "event \<Rightarrow> state \<Rightarrow> state" where
  "emit e s = s\<lparr>trace := trace s @ [e]\<rparr>"


section \<open>Go library functions on strings\<close>


text \<open>\<open>strings.Trim(s, "\n")\<close>: all leading and trailing newlines are removed.\<close>

definition Trim_nl :: "string \<Rightarrow> string" where
  "Trim_nl s = rev (dropWhile (\<lambda>c. c = CHR 0x0A) (rev (dropWhile (\<lambda>c. c = CHR 0x0A) s)))"


text \<open>\<open>strings.ReplaceAll(s, "\\", "/")\<close>.\<close>

definition ReplaceAll_backslash :: "string \<Rightarrow> string" where
  "ReplaceAll_backslash s = map (\<lambda>c. if c = CHR 0x5C then CHR ''/'' else c) s"

text \<open>
  \<open>strconv.Atoi\<close>: an optional sign, then one or more decimal digits; a value outside
  the 64-bit range is an error.
\<close>

definition isDigit :: "char \<Rightarrow> bool" where
  "isDigit c = (48 \<le> (of_char c :: nat) \<and> (of_char c :: nat) \<le> 57)"

fun digitsVal :: "nat \<Rightarrow> string \<Rightarrow> nat" where
  "digitsVal acc [] = acc"
| "digitsVal acc (c # cs) = digitsVal (10 * acc + (of_char c - 48)) cs"

definition Atoi :: "string \<Rightarrow> int option" where
  "Atoi s =
     (let neg = (s \<noteq> [] \<and> hd s = CHR ''-'');
          ds = (if s \<noteq> [] \<and> (hd s = CHR ''-'' \<or> hd s = CHR ''+'') then tl s else s);
          v = (if neg then - int (digitsVal 0 ds) else int (digitsVal 0 ds))
      in if ds = [] \<or> \<not> list_all isDigit ds then None
         else if v < - (2 ^ 63) \<or> 2 ^ 63 \<le> v then None
         else Some v)"

section \<open>Masternode parameters (cmd/start.go)\<close>

text \<open>The events that a call added to the trace.\<close>

definition newEvents :: "state \<Rightarrow> state \<Rightarrow> event list" where
  "newEvents s s' = drop (length (trace s)) (trace s')"




definition getMasternodeOutputs :: "env \<Rightarrow> state \<Rightarrow> (error + (string \<times> string) list) \<times> state" where
  "getMasternodeOutputs E s =
     (case perform E (PastelCLI [''masternode'', ''outputs'']) s of
        ((ok, outputs), s1) \<Rightarrow>
          if \<not> ok then (Inl (External (PastelCLI [''masternode'', ''outputs''])), s1)
          else if outputs \<noteq> [] then
            (case jsonOutputs E outputs of
               None \<Rightarrow> (Inl (Json outputs), s1)
             | Some mnOutputs \<Rightarrow> (Inr mnOutputs, s1))
          else (Inr [], s1))"

text \<open>\<open>m[k]\<close> on a Go map of strings: the empty string when the key is absent.\<close>

definition mapGet :: "(string \<times> string) list \<Rightarrow> string \<Rightarrow> string" where
  "mapGet m k = (case map_of m k of None \<Rightarrow> [] | Some v \<Rightarrow> v)"

text \<open>
  \<open>checkCollateral\<close>, first block: no transaction id or index was supplied and the user
  lets the tool search the wallet.
\<close>

definition checkCollateral_search :: "env \<Rightarrow> state \<Rightarrow> error option \<times> state" where
  "checkCollateral_search E s =
     (if flagMasterNodeTxID s = [] \<or> flagMasterNodeInd s = [] then
        (case perform E (Ask ''Search existing masternode collateral ready transaction in the wallet? Y/N'') s of
           ((yes, answer), s1) \<Rightarrow>
             if yes then
               (case getMasternodeOutputs E s1 of
                  (Inl e, s2) \<Rightarrow> (Some e, s2)
                | (Inr mnOutputs, s2) \<Rightarrow>
                    if 0 < length mnOutputs then
                      (case perform E (Ask ''Enter number to use, or N to exit'') s2 of
                         ((yes2, strNum), s3) \<Rightarrow>
                           (case Atoi strNum of
                              None \<Rightarrow> (Some (Msg ''user terminated - no collateral funds''), s3)
                            | Some dNum \<Rightarrow>
                                if dNum < 0 \<or> int (length mnOutputs) \<le> dNum then
                                  (Some (Msg ''user terminated - no collateral funds''), s3)
                                else
                                  (let txid = map fst mnOutputs ! nat dNum in
                                   (None, s3\<lparr>flagMasterNodeTxID := txid,
                                              flagMasterNodeInd := mapGet mnOutputs txid\<rparr>))))
                    else (None, s2))
             else (None, s1))
      else (None, s))"

text \<open>Second block: the user funds a new address and types the transaction id.\<close>

definition checkCollateral_fund :: "env \<Rightarrow> Config \<Rightarrow> state \<Rightarrow> error option \<times> state" where
  "checkCollateral_fund E config s =
     (if flagMasterNodeTxID s = [] \<or> flagMasterNodeInd s = [] then
        (let collateralAmount = (if Network config = NetworkTestnet then ''1''
                                 else if Network config = NetworkRegTest then ''0.1'' else ''5'');
             collateralCoins = (if Network config = NetworkTestnet then ''LSP''
                                else if Network config = NetworkRegTest then ''REG'' else ''PSL'')
         in case perform E (Ask (''Do you want to generate new local address and send '' @
                  collateralAmount @ ''M '' @ collateralCoins @ '' to it from another wallet? Y/N'')) s of
              ((yes, answer), s1) \<Rightarrow>
                if \<not> yes then (Some (Msg ''no collateral funds''), s1)
                else
                  (case perform E (PastelCLI [''getnewaddress'']) s1 of
                     ((ok, address), s2) \<Rightarrow>
                       if \<not> ok then (Some (External (PastelCLI [''getnewaddress''])), s2)
                       else
                         (case perform E (Ask ''Enter txid of the send and press Enter to continue when ready'') s2 of
                            ((yes3, newTxid), s3) \<Rightarrow>
                              (None, s3\<lparr>flagMasterNodeTxID := Trim_nl newTxid\<rparr>))))
      else (None, s))"

text \<open>
  The polling loop \<open>for i := 1; i <= 10; i++\<close>.  The body may assign \<open>i = 1\<close>; the
  post statement \<open>i++\<close> runs after the body in either case.  One unit of fuel is one
  evaluation of the loop condition.
\<close>

fun checkCollateral_wait :: "env \<Rightarrow> nat \<Rightarrow> int \<Rightarrow> state \<Rightarrow> error option fuelled \<times> state" where
  "checkCollateral_wait E 0 i s = (OutOfFuel, s)"
| "checkCollateral_wait E (Suc fuel) i s =
     (if \<not> i \<le> 10 then (Done None, s)
      else
        (case getMasternodeOutputs E s of
           (Inl e, s1) \<Rightarrow> (Done (Some e), s1)
         | (Inr mnOutputs, s1) \<Rightarrow>
             (case map_of mnOutputs (flagMasterNodeTxID s1) of
                Some txind \<Rightarrow> (Done None, s1\<lparr>flagMasterNodeInd := txind\<rparr>)
              | None \<Rightarrow>
                  (let s2 = emit (Sleep 10) s1 in
                   if i = 10 then
                     (case perform E (Ask ''Still no collateral transaction. Continue? - Y/N'') s2 of
                        ((yes, answer), s3) \<Rightarrow>
                          if \<not> yes then (Done (Some (Msg ''user terminated'')), s3)
                          else checkCollateral_wait E fuel (1 + 1) s3)
                   else checkCollateral_wait E fuel (i + 1) s2))))"

definition checkCollateral :: "env \<Rightarrow> Config \<Rightarrow> nat \<Rightarrow> state \<Rightarrow> error option fuelled \<times> state" where
  "checkCollateral E config fuel s =
     (case checkCollateral_search E s of
        (Some e, s1) \<Rightarrow> (Done (Some e), s1)
      | (None, s1) \<Rightarrow>
          (case checkCollateral_fund E config s1 of
             (Some e, s2) \<Rightarrow> (Done (Some e), s2)
           | (None, s2) \<Rightarrow>
               (case checkCollateral_wait E fuel 1 s2 of
                  (OutOfFuel, s3) \<Rightarrow> (OutOfFuel, s3)
                | (Done (Some e), s3) \<Rightarrow> (Done (Some e), s3)
                | (Done None, s3) \<Rightarrow>
                    if flagMasterNodeTxID s3 = [] \<or> flagMasterNodeInd s3 = [] then
                      (Done (Some (Msg (''Cannot find masternode outputs = '' @ flagMasterNodeTxID s3 @
                                        '':'' @ flagMasterNodeInd s3))), s3)
                    else (Done None, s3))))"


text \<open>
  \<open>runStartMasternode\<close>.  \<open>ParsePastelConf\<close> also stores the network in the
  configuration, which this function only logs.
\<close>

definition mismatchError :: "string \<Rightarrow> string \<Rightarrow> error" where
  "mismatchError extIP wanIP =
     Msg (''External IP address in masternode.conf MUST match WAN address of the node! '' @
          ''IP in masternode.conf - '' @ extIP @ '', WAN IP passed or identified - '' @ wanIP)"

definition runStartMasternode :: "env \<Rightarrow> Config \<Rightarrow> flags \<Rightarrow> state \<Rightarrow> error option \<times> state" where
  "runStartMasternode E config fl s =
     (case perform E ParsePastelConf s of
        ((ok1, out1), s1) \<Rightarrow>
          if \<not> ok1 then (Some (External ParsePastelConf), s1)
          else
            (case perform E (GetMasternodeConfData (flagMasterNodeName fl)) s1 of
               ((ok2, out2), s2) \<Rightarrow>
                 (case masternodeConf E (trace s1) (flagMasterNodeName fl) of
                    (privKey, extIP, extPort) \<Rightarrow>
                      if \<not> ok2 then (Some (External (GetMasternodeConfData (flagMasterNodeName fl))), s2)
                      else
                        (case (if flagNodeExtIP s2 = [] then
                                 (case perform E GetExternalIPAddress s2 of
                                    ((ok3, externalIP), s3) \<Rightarrow>
                                      if \<not> ok3 then (Some (Msg ''cannot get external ip address''), s3)
                                      else (None, s3\<lparr>flagNodeExtIP := externalIP\<rparr>))
                               else (None, s2)) of
                           (Some e, s3) \<Rightarrow> (Some e, s3)
                         | (None, s3) \<Rightarrow>
                             if extIP \<noteq> flagNodeExtIP s3 then (Some (mismatchError extIP (flagNodeExtIP s3)), s3)
                             else
                               (case perform E (RunPastelNode [True, ReIndex config] (flagNodeExtIP s3) privKey) s3 of
                                  ((ok4, out4), s4) \<Rightarrow>
                                    if \<not> ok4 then
                                      (Some (External (RunPastelNode [True, ReIndex config] (flagNodeExtIP s3) privKey)), s4)
                                    else (None, s4))))))"

section \<open>Remote running check (both cold/hot files)\<close>

text \<open>
  \<open>CheckPastelDRunningRemote\<close> of \<open>cmd/start_coldhot.go\<close>.  \<open>failCnt\<close> is a Go \<open>int\<close>
  (64 bits); the loop stops when it equals 12.
\<close>

lemma word_pred_less: "(d::64 word) \<noteq> 0 \<Longrightarrow> unat (d - 1) < unat d"
  by (simp add: unat_minus_one unat_gt_0 [symmetric] del: unat_gt_0)

lemma failCnt_step:
  fixes failCnt :: "64 word"
  assumes "failCnt \<noteq> 11"
  shows "unat (10 - failCnt) < unat (11 - failCnt)"
proof -
  have "11 - failCnt \<noteq> 0"
    using assms by simp
  then have "unat ((11 - failCnt) - 1) < unat (11 - failCnt)"
    by (rule word_pred_less)
  moreover have "(11 - failCnt) - 1 = 10 - failCnt"
    by simp
  ultimately show ?thesis by (simp only:)
qed

function CheckPastelDRunningRemote_loop ::
  "env \<Rightarrow> string \<Rightarrow> bool \<Rightarrow> 64 word \<Rightarrow> state \<Rightarrow> bool \<times> state" where
  "CheckPastelDRunningRemote_loop E cliPath want failCnt s =
     (case perform E (SshOutput (cliPath @ '' '' @ ''getinfo'')) s of
        ((ok, out), s1) \<Rightarrow>
          if \<not> ok then
            (if \<not> want then (False, s1)
             else if failCnt + 1 = 12 then (False, emit (Sleep 5) s1)
             else CheckPastelDRunningRemote_loop E cliPath want (failCnt + 1) (emit (Sleep 5) s1))
          else (True, s1))"
  by pat_completeness auto
termination
  by (relation "measure (\<lambda>(E, cliPath, want, failCnt, s). unat (11 - failCnt))")
     (auto simp: failCnt_step)

definition CheckPastelDRunningRemote :: "env \<Rightarrow> string \<Rightarrow> bool \<Rightarrow> state \<Rightarrow> bool \<times> state" where
  "CheckPastelDRunningRemote E cliPath want s = CheckPastelDRunningRemote_loop E cliPath want 0 s"

text \<open>
  \<open>CheckPastelDRunningRemote\<close> of the second cold/hot file (\<open>unnamed/part_002\<close>): the same
  loop, except that a failed query with \<open>want = false\<close> returns \<open>true\<close>.
\<close>

function CheckPastelDRunningRemote_002_loop ::
  "env \<Rightarrow> string \<Rightarrow> bool \<Rightarrow> 64 word \<Rightarrow> state \<Rightarrow> bool \<times> state" where
  "CheckPastelDRunningRemote_002_loop E cliPath want failCnt s =
     (case perform E (SshOutput (cliPath @ '' '' @ ''getinfo'')) s of
        ((ok, out), s1) \<Rightarrow>
          if \<not> ok then
            (if \<not> want then (True, s1)
             else if failCnt + 1 = 12 then (False, emit (Sleep 5) s1)
             else CheckPastelDRunningRemote_002_loop E cliPath want (failCnt + 1) (emit (Sleep 5) s1))
          else (True, s1))"
  by pat_completeness auto
termination
  by (relation "measure (\<lambda>(E, cliPath, want, failCnt, s). unat (11 - failCnt))")
     (auto simp: failCnt_step)

definition CheckPastelDRunningRemote_002 :: "env \<Rightarrow> string \<Rightarrow> bool \<Rightarrow> state \<Rightarrow> bool \<times> state" where
  "CheckPastelDRunningRemote_002 E cliPath want s = CheckPastelDRunningRemote_002_loop E cliPath want 0 s"

declare CheckPastelDRunningRemote_loop.simps [simp del]
declare CheckPastelDRunningRemote_002_loop.simps [simp del]

section \<open>The cold/hot runner (cmd/start_coldhot.go)\<close>

text \<open>
  The runner calls helpers of \<open>cmd/start.go\<close>.  It passes \<open>runPastelNode\<close> one flag, the
  address and the key; \<open>cmd/start.go\<close> declares it with two flags.  Each call is an event
  with the arguments it passes.
\<close>

record ColdHotRunnerOpts =
  testnetOption :: string
  remotePastelUtility :: string
  remotePasteld :: string
  remotePastelCli :: string

text \<open>Sequencing: \<open>if err != nil { return err }\<close>.\<close>

definition andThen ::
  "error option fuelled \<times> state \<Rightarrow> (state \<Rightarrow> error option fuelled \<times> state) \<Rightarrow> error option fuelled \<times> state" where
  "andThen r k = (case r of (Done None, s) \<Rightarrow> k s | (Done (Some e), s) \<Rightarrow> (Done (Some e), s)
                  | (OutOfFuel, s) \<Rightarrow> (OutOfFuel, s))"

definition returned :: "error option \<times> state \<Rightarrow> error option fuelled \<times> state" where
  "returned r = (Done (fst r), snd r)"

text \<open>A call of a collaborator that returns only an error, which is passed on unchanged.\<close>

definition call :: "env \<Rightarrow> event \<Rightarrow> state \<Rightarrow> error option \<times> state" where
  "call E e s = (case perform E e s of ((ok, out), s1) \<Rightarrow> if ok then (None, s1) else (Some (External e), s1))"

text \<open>\<open>fmt.Errorf("prefix: %s", err)\<close> on the error path.\<close>

definition wrapErr :: "string \<Rightarrow> error option fuelled \<times> state \<Rightarrow> error option fuelled \<times> state" where
  "wrapErr prefix r = (case r of (Done (Some e), s) \<Rightarrow> (Done (Some (Wrap prefix e)), s)
                       | (Done None, s) \<Rightarrow> (Done None, s) | (OutOfFuel, s) \<Rightarrow> (OutOfFuel, s))"

text \<open>
  \<open>checkMasterNodeSyncRemote\<close>: a loop without bound that calls itself once, with
  \<open>retryCount = 1\<close> and a fresh \<open>mnstatus\<close>, when the first status query fails.  One unit
  of fuel is one status query.
\<close>

definition cmdMnsyncStatus :: "string \<Rightarrow> event" where
  "cmdMnsyncStatus cli = SshOutput (cli @ '' mnsync status'')"

definition cmdMnsyncReset :: "string \<Rightarrow> event" where
  "cmdMnsyncReset cli = SshOutput (cli @ '' mnsync reset'')"

definition zeroStatus :: RPCPastelMSStatus where
  "zeroStatus = \<lparr>AssetName = [], IsSynced = False\<rparr>"

fun checkMasterNodeSyncRemote_loop ::
  "env \<Rightarrow> string \<Rightarrow> nat \<Rightarrow> int \<Rightarrow> RPCPastelMSStatus \<Rightarrow> state \<Rightarrow> error option fuelled \<times> state" where
  "checkMasterNodeSyncRemote_loop E cli 0 retryCount mnstatus s = (OutOfFuel, s)"
| "checkMasterNodeSyncRemote_loop E cli (Suc fuel) retryCount mnstatus s =
     (case perform E (cmdMnsyncStatus cli) s of
        ((ok, output), s1) \<Rightarrow>
          if \<not> ok then
            (if retryCount = 0
             then checkMasterNodeSyncRemote_loop E cli fuel 1 zeroStatus (emit (Sleep 5) s1)
             else (Done (Some (External (cmdMnsyncStatus cli))), s1))
          else
            (case jsonMNStatus E output mnstatus of
               None \<Rightarrow> (Done (Some (Json output)), s1)
             | Some mnstatus' \<Rightarrow>
                 (case (if AssetName mnstatus' = ''Initial''
                        then (case call E (cmdMnsyncReset cli) s1 of
                                (Some e, s2) \<Rightarrow> (Some e, s2)
                              | (None, s2) \<Rightarrow> (None, emit (Sleep 10) s2))
                        else (None, s1)) of
                    (Some e, s2) \<Rightarrow> (Done (Some e), s2)
                  | (None, s2) \<Rightarrow>
                      if IsSynced mnstatus' then (Done None, s2)
                      else checkMasterNodeSyncRemote_loop E cli fuel retryCount mnstatus'
                             (emit (Sleep 10) s2))))"

definition checkMasterNodeSyncRemote ::
  "env \<Rightarrow> ColdHotRunnerOpts \<Rightarrow> nat \<Rightarrow> int \<Rightarrow> state \<Rightarrow> error option fuelled \<times> state" where
  "checkMasterNodeSyncRemote E opts fuel retryCount s =
     checkMasterNodeSyncRemote_loop E (remotePastelCli opts) fuel retryCount zeroStatus s"



definition runServiceRemote :: "env \<Rightarrow> Config \<Rightarrow> ColdHotRunnerOpts \<Rightarrow> string \<Rightarrow> state \<Rightarrow> error option \<times> state" where
  "runServiceRemote E config opts service s =
     (let cmd0 = remotePastelUtility opts @ '' '' @ ''start'' @ '' '' @ service;
          cmd = (if RemoteWorkingDir config \<noteq> [] then cmd0 @ '' --work-dir='' @ RemoteWorkingDir config
                 else cmd0)
      in case perform E (SshOutput cmd) s of
           ((ok, out), s1) \<Rightarrow>
             if \<not> ok then (Some (Wrap ''failed to start service on remote: '' (External (SshOutput cmd))), s1)
             else (None, s1))"







text \<open>\<open>Run\<close>, steps 6 and 7: the services on the hot node.\<close>

definition Run_services ::
  "env \<Rightarrow> Config \<Rightarrow> ColdHotRunnerOpts \<Rightarrow> state \<Rightarrow> error option fuelled \<times> state" where
  "Run_services E config opts s =
     andThen (wrapErr ''failed to start rq-service on hot node: ''
                (returned (runServiceRemote E config opts (toolString E RQService) s))) (\<lambda>s.
     andThen (wrapErr ''failed to start dd-service on hot node: ''
                (returned (runServiceRemote E config opts (toolString E DDService) s))) (\<lambda>s.
     (let snConfigPath = getSuperNodeConfFile E (WorkingDir config);
          remoteSnConfigPath = ReplaceAll_backslash (getSuperNodeConfFile E (RemoteWorkingDir config))
      in andThen (returned (call E (SshScp snConfigPath remoteSnConfigPath) s)) (\<lambda>s.
         andThen (returned (call E (SshShellCmd (''chmod 755 '' @ snConfigPath)) s)) (\<lambda>s.
         wrapErr ''failed to start supernode-service on hot node: ''
           (returned (runServiceRemote E config opts (toolString E SuperNode @ ''-'' @ ''service'') s)))))))"


section \<open>The service manager (package servicemanager)\<close>

text \<open>
  What the service manager and the installer need from the platform.  The constants
  \<open>constants.SystemdSystemDir\<close>, \<open>constants.SystemdUserDir\<close>,
  \<open>constants.SystemdServicePrefix\<close> and the duplicate-detection paths are declared in a file
  that is not among the sources, so they are parameters, as are the library functions.
  \<open>systemctl\<close> answers a command from the list of the commands run before it.
\<close>

record platform =
  toolName :: "ToolType \<Rightarrow> string"
  SystemdSystemDir :: string
  SystemdUserDir :: string
  SystemdServicePrefix :: string
  DupeDetectionServiceDir :: string
  DupeDetectionSupportFilePath :: string
  DupeDetectionConfigFilename :: string
  Join :: "string list \<Rightarrow> string"
  execName :: "ToolType \<Rightarrow> string"
  confFile :: "ToolType \<Rightarrow> string \<Rightarrow> string"
  statFails :: "string \<Rightarrow> bool"
  writeFails :: "string \<Rightarrow> bool"
  systemctl :: "(string \<times> string) list \<Rightarrow> string \<Rightarrow> string \<Rightarrow> bool \<times> string"
  externalIPAddress :: "string option"
  GetServiceConfig :: "string \<Rightarrow> string \<Rightarrow> string \<Rightarrow> string \<Rightarrow> string option"

text \<open>The machine: its files and the \<open>systemctl\<close> commands run so far.\<close>

record system =
  files :: "string \<Rightarrow> string option"
  systemctlLog :: "(string \<times> string) list"

record ResgistrationParams =
  FlagDevMode :: bool
  RegConfig :: Config

datatype ServiceManager = LinuxSystemdManager string | NoopManager

text \<open>The verbs of type \<open>systemdCmd\<close>.\<close>

definition start :: string where "start = ''start''"
definition enable :: string where "enable = ''enable''"
definition disable :: string where "disable = ''disable''"
definition status :: string where "status = ''status''"

text \<open>\<open>strings.Contains\<close>.\<close>

primrec Contains :: "string \<Rightarrow> string \<Rightarrow> bool" where
  "Contains [] sub = (sub = [])"
| "Contains (c # cs) sub = (take (length sub) (c # cs) = sub \<or> Contains cs sub)"

definition runSystemdCmd :: "platform \<Rightarrow> string \<Rightarrow> string \<Rightarrow> system \<Rightarrow> (string \<times> bool) \<times> system" where
  "runSystemdCmd P command serviceName sys =
     (case systemctl P (systemctlLog sys) command serviceName of
        (ok, out) \<Rightarrow> ((out, ok), sys\<lparr>systemctlLog := systemctlLog sys @ [(command, serviceName)]\<rparr>))"

definition ServiceName :: "platform \<Rightarrow> ToolType \<Rightarrow> string" where
  "ServiceName P app = SystemdServicePrefix P @ toolName P app @ ''.service''"

text \<open>
  \<open>IsRegistered\<close>: \<open>os.Stat\<close> on the unit file below the home directory.  The result is
  the flag and whether an error other than "does not exist" came back.
\<close>

definition IsRegistered :: "platform \<Rightarrow> string \<Rightarrow> ToolType \<Rightarrow> system \<Rightarrow> bool \<times> error option" where
  "IsRegistered P homeDir app sys =
     (let fp = Join P [homeDir, SystemdUserDir P, ServiceName P app] in
      if statFails P fp then (False, Some (Lib ''os.Stat''))
      else if files sys fp = None then (False, None)
      else (True, None))"

definition IsRunning :: "platform \<Rightarrow> ToolType \<Rightarrow> system \<Rightarrow> bool \<times> system" where
  "IsRunning P app sys =
     (case runSystemdCmd P status (ServiceName P app) sys of
        ((res, ok), sys1) \<Rightarrow> (Contains res ''(running)'', sys1))"

definition EnableService :: "platform \<Rightarrow> ToolType \<Rightarrow> system \<Rightarrow> error option \<times> system" where
  "EnableService P app sys =
     (case runSystemdCmd P enable (ServiceName P app) sys of
        ((out, ok), sys1) \<Rightarrow>
          if \<not> ok then (Some (Wrap (''err enabling '' @ ServiceName P app @ '' - err: '') (Lib ''systemctl'')), sys1)
          else (None, sys1))"

definition DisableService :: "platform \<Rightarrow> ToolType \<Rightarrow> system \<Rightarrow> error option \<times> system" where
  "DisableService P app sys =
     (case runSystemdCmd P disable (ServiceName P app) sys of
        ((out, ok), sys1) \<Rightarrow>
          if \<not> ok then (Some (Wrap (''err enabling '' @ ServiceName P app @ '' - err: '') (Lib ''systemctl'')), sys1)
          else (None, sys1))"

text \<open>\<open>LinuxSystemdManager.StartService\<close>: the flag "started" and the error.\<close>

definition LinuxSystemdManager_StartService ::
  "platform \<Rightarrow> string \<Rightarrow> ToolType \<Rightarrow> system \<Rightarrow> (bool \<times> error option) \<times> system" where
  "LinuxSystemdManager_StartService P homeDir app sys =
     (if \<not> fst (IsRegistered P homeDir app sys) then ((False, None), sys)
      else
        (case IsRunning P app sys of
           (isRunning, sys1) \<Rightarrow>
             if isRunning then ((True, None), sys1)
             else
               (case runSystemdCmd P start (ServiceName P app) sys1 of
                  ((out, ok), sys2) \<Rightarrow>
                    if \<not> ok then
                      ((False, Some (Wrap (''unable to start service ('' @ toolName P app @ ''): '')
                                        (Lib ''systemctl''))), sys2)
                    else ((True, None), sys2))))"

definition NoopManager_StartService :: "ToolType \<Rightarrow> system \<Rightarrow> (bool \<times> error option) \<times> system" where
  "NoopManager_StartService app sys = ((False, None), sys)"

text \<open>The method \<open>StartService\<close> of the interface \<open>ServiceManager\<close>.\<close>

fun StartService :: "platform \<Rightarrow> ServiceManager \<Rightarrow> ToolType \<Rightarrow> system \<Rightarrow> (bool \<times> error option) \<times> system" where
  "StartService P (LinuxSystemdManager homeDir) app sys = LinuxSystemdManager_StartService P homeDir app sys"
| "StartService P NoopManager app sys = NoopManager_StartService app sys"

fun IsRegistered_method :: "platform \<Rightarrow> ServiceManager \<Rightarrow> ToolType \<Rightarrow> system \<Rightarrow> bool \<times> error option" where
  "IsRegistered_method P (LinuxSystemdManager homeDir) app sys = IsRegistered P homeDir app sys"
| "IsRegistered_method P NoopManager app sys = (False, None)"

text \<open>\<open>utils.CheckFileExist\<close> and \<open>ioutil.WriteFile\<close> on the files of the machine.\<close>

definition CheckFileExist :: "string \<Rightarrow> system \<Rightarrow> bool" where
  "CheckFileExist path sys = (files sys path \<noteq> None)"

definition WriteFile :: "platform \<Rightarrow> string \<Rightarrow> string \<Rightarrow> system \<Rightarrow> bool \<times> system" where
  "WriteFile P path content sys =
     (if writeFails P path then (False, sys)
      else (True, sys\<lparr>files := (files sys)(path \<mapsto> content)\<rparr>))"

text \<open>
  The \<open>switch app\<close> of \<open>RegisterService\<close>: either the function returns at once (with the
  value of \<open>err\<close>, which is still nil where an executable is missing), or it goes on with
  the command line and the working directory of the unit.
\<close>

definition requireExec ::
  "string \<Rightarrow> string \<times> string \<Rightarrow> system \<Rightarrow> error option + string \<times> string" where
  "requireExec execPath spec sys = (if \<not> CheckFileExist execPath sys then Inl None else Inr spec)"

fun launchSpec ::
  "platform \<Rightarrow> string \<Rightarrow> ToolType \<Rightarrow> ResgistrationParams \<Rightarrow> system \<Rightarrow> error option + string \<times> string" where
  "launchSpec P homeDir DDImgService params sys =
     Inr (''python3 -m  http.server 8000'',
          Join P [Join P [homeDir, DupeDetectionServiceDir P], ''img_server''])"
| "launchSpec P homeDir PastelD params sys =
     (let execPath = Join P [PastelExecDir (RegConfig params), execName P PastelD] in
      if \<not> CheckFileExist execPath sys then Inl None
      else (case externalIPAddress P of
              None \<Rightarrow> Inl (Some (Lib ''utils.GetExternalIPAddress''))
            | Some extIP \<Rightarrow>
                Inr (execPath @ '' --datadir='' @ WorkingDir (RegConfig params) @ '' --externalip='' @ extIP,
                     PastelExecDir (RegConfig params))))"
| "launchSpec P homeDir RQService params sys =
     (let execPath = Join P [PastelExecDir (RegConfig params), execName P RQService] in
      requireExec execPath
        (execPath @ '' '' @ ''--config-file='' @ confFile P RQService (WorkingDir (RegConfig params)),
         PastelExecDir (RegConfig params)) sys)"
| "launchSpec P homeDir DDService params sys =
     (let execPath = Join P [PastelExecDir (RegConfig params), execName P DDService] in
      requireExec execPath
        (''python3 '' @ execPath @ '' '' @
           Join P [homeDir, DupeDetectionServiceDir P, DupeDetectionSupportFilePath P,
                   DupeDetectionConfigFilename P],
         PastelExecDir (RegConfig params)) sys)"
| "launchSpec P homeDir SuperNode params sys =
     (let execPath = Join P [PastelExecDir (RegConfig params), execName P SuperNode] in
      requireExec execPath
        (execPath @ '' --config-file='' @ confFile P SuperNode (WorkingDir (RegConfig params)),
         PastelExecDir (RegConfig params)) sys)"
| "launchSpec P homeDir WalletNode params sys =
     (let execPath = Join P [PastelExecDir (RegConfig params), execName P WalletNode] in
      requireExec execPath
        (execPath @ '' --config-file='' @ confFile P WalletNode (WorkingDir (RegConfig params)) @
           (if FlagDevMode params then '' --swagger'' else []),
         PastelExecDir (RegConfig params)) sys)"
| "launchSpec P homeDir (OtherTool name) params sys = Inl None"

text \<open>
  \<open>LinuxSystemdManager.RegisterService\<close>.  A failed write of the unit file is only logged,
  and the result of \<open>EnableService\<close> is dropped.
\<close>

definition RegisterService ::
  "platform \<Rightarrow> string \<Rightarrow> ToolType \<Rightarrow> ResgistrationParams \<Rightarrow> system \<Rightarrow> error option \<times> system" where
  "RegisterService P homeDir app params sys =
     (if fst (IsRegistered P homeDir app sys) then (None, sys)
      else
        (let appServiceFileName = ServiceName P app;
             appServiceFilePath = Join P [SystemdSystemDir P, appServiceFileName]
         in case launchSpec P homeDir app params sys of
              Inl r \<Rightarrow> (r, sys)
            | Inr (execCmd, workDir) \<Rightarrow>
                (case GetServiceConfig P (toolName P app) (toolName P app @ '' daemon'') execCmd workDir of
                   None \<Rightarrow>
                     (Some (Wrap (''unable ot create service file for ('' @ toolName P app @ ''): '')
                              (Lib ''utils.GetServiceConfig'')), sys)
                 | Some systemdFile \<Rightarrow>
                     (None, snd (EnableService P app
                                   (snd (WriteFile P appServiceFilePath systemdFile sys)))))))"

section \<open>Working environment of the node (install command)\<close>

text \<open>
  The installer's collaborators: \<open>utils.CreateFolder\<close> and \<open>utils.CreateFile\<close> (given the
  path and the force flag), the random strings, the port table
  \<open>GetSNPortList(config)[constants.NodeRPCPort]\<close>, the zksnark directory and the download of
  the parameter files, whose error may or may not satisfy \<open>os.IsExist\<close>.  Of the files
  on the machine only the write of \<open>pastel.conf\<close> is followed; the empty file that
  \<open>CreateFile\<close> makes and the downloaded parameter files are not.
\<close>

datatype download = DownloadOk | DownloadErrExist | DownloadErr

record installer =
  createFolderFails :: "string \<Rightarrow> bool \<Rightarrow> bool"
  createFileFails :: "string \<Rightarrow> bool \<Rightarrow> bool"
  GenerateRandomString :: "nat \<Rightarrow> string"
  nodeRPCPort :: "Config \<Rightarrow> int"
  DefaultZksnarkDir :: string
  downloadZksnarkParams :: "string \<Rightarrow> bool \<Rightarrow> download"

text \<open>
  Modelled from the spec: the constant \<open>constants.PastelConfName\<close> is not in the source
  files; the spec names the node's configuration file \<open>pastel.conf\<close>, as the log messages
  of the code do.
\<close>

definition PastelConfName :: string where
  "PastelConfName = ''pastel.conf''"

text \<open>\<open>strconv.Itoa\<close>.\<close>

fun digitsOf :: "nat \<Rightarrow> string" where
  "digitsOf n = (if n < 10 then [''0123456789'' ! n]
                 else digitsOf (n div 10) @ [''0123456789'' ! (n mod 10)])"

declare digitsOf.simps [simp del]

definition Itoa :: "int \<Rightarrow> string" where
  "Itoa i = (if i < 0 then CHR ''-'' # digitsOf (nat (- i)) else digitsOf (nat i))"

text \<open>\<open>strings.Split(s, ",")\<close>.\<close>

fun Split_comma :: "string \<Rightarrow> string list" where
  "Split_comma [] = [[]]"
| "Split_comma (c # cs) =
     (if c = CHR '','' then [] # Split_comma cs
      else (case Split_comma cs of [] \<Rightarrow> [[c]] | w # ws \<Rightarrow> (c # w) # ws))"

definition pastelConfText :: "Config \<Rightarrow> string" where
  "pastelConfText config =
     ''server=1'' @ [CHR 0x0A] @
     ''listen=1'' @ [CHR 0x0A, CHR 0x0A] @
     ''rpcuser='' @ RPCUser config @ [CHR 0x0A] @
     ''rpcpassword='' @ RPCPwd config @ [CHR 0x0A] @
     ''rpcport='' @ Itoa (RPCPort config) @ [CHR 0x0A] @
     (if Network config = NetworkTestnet then ''testnet=1'' @ [CHR 0x0A] else []) @
     (if Network config = NetworkRegTest then ''regtest=1'' @ [CHR 0x0A] else []) @
     (if Peers config \<noteq> [] then concat (map (\<lambda>node. ''addnode='' @ node @ [CHR 0x0A]) (Split_comma (Peers config)))
      else [])"

definition updatePastelConfigFile :: "platform \<Rightarrow> string \<Rightarrow> Config \<Rightarrow> system \<Rightarrow> error option \<times> system" where
  "updatePastelConfigFile P filePath config sys =
     (case WriteFile P filePath (pastelConfText config) sys of
        (ok, sys1) \<Rightarrow>
          if \<not> ok then (Some (Wrap ''failed to save file changes: '' (Lib ''ioutil.WriteFile'')), sys1)
          else (None, sys1))"

text \<open>The three assignments to the RPC settings in \<open>setupBasePasteWorkingEnvironment\<close>.\<close>

definition rpcSettings :: "installer \<Rightarrow> Config \<Rightarrow> Config" where
  "rpcSettings I config =
     (let c1 = (if RPCPort config = 0 \<or> RegenRPC config then config\<lparr>RPCPort := nodeRPCPort I config\<rparr>
                else config);
          c2 = (if RPCUser c1 = [] \<or> RegenRPC c1 then c1\<lparr>RPCUser := GenerateRandomString I 8\<rparr> else c1);
          c3 = (if RPCPwd c2 = [] \<or> RegenRPC c2 then c2\<lparr>RPCPwd := GenerateRandomString I 15\<rparr> else c2)
      in c3)"

text \<open>
  \<open>setupBasePasteWorkingEnvironment\<close>: the error, the configuration as the function
  leaves it, and the files.
\<close>

definition setupBasePasteWorkingEnvironment ::
  "platform \<Rightarrow> installer \<Rightarrow> Config \<Rightarrow> system \<Rightarrow> error option \<times> Config \<times> system" where
  "setupBasePasteWorkingEnvironment P I config sys =
     (if OpMode config \<noteq> ''install'' then (None, config, sys)
      else if createFolderFails I (WorkingDir config) (Force config)
      then (Some (Lib ''utils.CreateFolder''), config, sys)
      else
        (let config1 = rpcSettings I config;
             pastelConfigPath = Join P [WorkingDir config1, PastelConfName]
         in if createFileFails I pastelConfigPath (Force config1)
            then (Some (Wrap (''failed to create '' @ pastelConfigPath @ '' - '') (Lib ''utils.CreateFile'')),
                  config1, sys)
            else
              (case updatePastelConfigFile P pastelConfigPath config1 sys of
                 (Some e, sys1) \<Rightarrow>
                   (Some (Wrap (''failed to update '' @ pastelConfigPath @ '' - '') e), config1, sys1)
               | (None, sys1) \<Rightarrow>
                   if createFolderFails I (DefaultZksnarkDir I) (Force config1)
                   then (Some (Wrap (''failed to update folder '' @ DefaultZksnarkDir I @ '' - '')
                                 (Lib ''utils.CreateFolder'')), config1, sys1)
                   else if downloadZksnarkParams I (DefaultZksnarkDir I) (Force config1) = DownloadErr
                           \<or> (downloadZksnarkParams I (DefaultZksnarkDir I) (Force config1) = DownloadErrExist
                               \<and> Force config1)
                   then (Some (Wrap (''failed to download Zksnark parameters into folder '' @
                                       DefaultZksnarkDir I @ '' - '') (Lib ''downloadZksnarkParams'')),
                         config1, sys1)
                   else (None, config1, sys1))))"

section \<open>Notions used in the statements\<close>

text \<open>
  \<open>extendsBy P s s'\<close>: the trace of \<open>s'\<close> is the trace of \<open>s\<close> followed by events that all
  satisfy \<open>P\<close>.
\<close>

definition extendsBy :: "(event \<Rightarrow> bool) \<Rightarrow> state \<Rightarrow> state \<Rightarrow> bool" where
  "extendsBy P s s' =
     (take (length (trace s)) (trace s') = trace s \<and> list_all P (newEvents s s'))"



definition waitEvent :: "event \<Rightarrow> bool" where
  "waitEvent e =
     (e = PastelCLI [''masternode'', ''outputs''] \<or> e = Sleep 10
      \<or> e = Ask ''Still no collateral transaction. Continue? - Y/N'')"

text \<open>
  The answer to an \<open>mnsync status\<close> query issued after the trace \<open>tr\<close>: the command
  succeeds and its output decodes, into the struct \<open>prev\<close>, to \<open>st\<close>.  The \<open>mnsync reset\<close>
  issued after \<open>tr\<close> succeeds.
\<close>

definition statusAnswer :: "env \<Rightarrow> string \<Rightarrow> event list \<Rightarrow> RPCPastelMSStatus \<Rightarrow> RPCPastelMSStatus \<Rightarrow> bool" where
  "statusAnswer E cli tr prev st =
     (case respond E tr (cmdMnsyncStatus cli) of (ok, out) \<Rightarrow> ok \<and> jsonMNStatus E out prev = Some st)"

definition resetAccepted :: "env \<Rightarrow> string \<Rightarrow> event list \<Rightarrow> bool" where
  "resetAccepted E cli tr = fst (respond E tr (cmdMnsyncReset cli))"

text \<open>
  What one pass of the polling loop adds to the trace when the status is "Initial", and
  when it is neither "Initial" nor synced.
\<close>

definition initialRound :: "string \<Rightarrow> event list" where
  "initialRound cli = [cmdMnsyncStatus cli, cmdMnsyncReset cli, Sleep 10, Sleep 10]"

definition waitRound :: "string \<Rightarrow> event list" where
  "waitRound cli = [cmdMnsyncStatus cli, Sleep 10]"

text \<open>The event that launches the local daemon.\<close>

fun isRunPastelNode :: "event \<Rightarrow> bool" where
  "isRunPastelNode (RunPastelNode bs ip key) = True"
| "isRunPastelNode e = False"

text \<open>
  \<open>waited s s'\<close>: \<open>s'\<close> is \<open>s\<close> after further events of the polling loop, with possibly
  another collateral index; nothing else has changed.
\<close>

definition waited :: "state \<Rightarrow> state \<Rightarrow> bool" where
  "waited s s' =
     (extendsBy waitEvent s s' \<and>
      s' = s\<lparr>trace := trace s', flagMasterNodeInd := flagMasterNodeInd s'\<rparr>)"







section \<open>Concrete scenarios\<close>

text \<open>
  A path join for clean, relative or absolute path elements, and strings for the tool
  constants; both instantiate parameters in the scenarios below.
\<close>

fun joinSlash :: "string list \<Rightarrow> string" where
  "joinSlash [] = []"
| "joinSlash [x] = x"
| "joinSlash (x # y # ys) = (if x = [] then joinSlash (y # ys) else x @ ''/'' @ joinSlash (y # ys))"

fun toolStr :: "ToolType \<Rightarrow> string" where
  "toolStr DDImgService = ''dd-img-server''"
| "toolStr PastelD = ''pasteld''"
| "toolStr RQService = ''rq-service''"
| "toolStr DDService = ''dd-service''"
| "toolStr SuperNode = ''supernode''"
| "toolStr WalletNode = ''walletnode''"
| "toolStr (OtherTool name) = name"

text \<open>An environment with the given answers; the decoders read the output as it is.\<close>

definition scenario :: "(event list \<Rightarrow> event \<Rightarrow> reply) \<Rightarrow> env" where
  "scenario r =
     \<lparr>respond = r,
      jsonOutputs = (\<lambda>out. if out = ''{}'' then Some [] else Some [(out, ''0'')]),
      jsonMNStatus = (\<lambda>out prev. Some \<lparr>AssetName = out, IsSynced = (out = ''Finished'')\<rparr>),
      jsonPastelID = (\<lambda>out. Some out),
      masternodeConf = (\<lambda>tr name. (''privkey-1'', ''10.0.0.5'', ''9933'')),
      getSuperNodeConfFile = (\<lambda>workDir. joinSlash [workDir, ''supernode.yml'']),
      filepathJoin = joinSlash,
      pastelCliName = ''pastel-cli'',
      toolString = toolStr\<rparr>"

definition s0 :: state where
  "s0 = \<lparr>trace = [], flagMasterNodeTxID = [], flagMasterNodeInd = [], flagMasterNodePassPhrase = [],
         flagMasterNodePrivateKey = [], flagMasterNodePastelID = [], flagNodeExtIP = [],
         flagMasterNodeP2PIP = []\<rparr>"

definition hotOpts :: ColdHotRunnerOpts where
  "hotOpts = \<lparr>testnetOption = '' --testnet'',
              remotePastelUtility = ''/home/hot/pastelup/pastel-utility'',
              remotePasteld = ''/home/hot/pastel/pasteld'',
              remotePastelCli = ''/home/hot/pastel/pastel-cli''\<rparr>"

definition coldConfig :: Config where
  "coldConfig = \<lparr>Network = ''testnet'', WorkingDir = ''/home/cold/.pastel'',
                 PastelExecDir = ''/home/cold/pastel'', RemoteWorkingDir = ''/home/hot/.pastel'',
                 RemoteHotPastelExecDir = ''/home/hot/pastel'', ReIndex = False,
                 OpMode = ''install'', Force = False, RegenRPC = False, RPCPort = 19932,
                 RPCUser = ''alice'', RPCPwd = ''secret'', Peers = []\<rparr>"

text \<open>The remote host answers nothing: every command fails.\<close>

definition deadRemote :: env where
  "deadRemote = scenario (\<lambda>tr e. (False, []))"

text \<open>
  The remote daemon reports "Initial" twice, then "Syncing", then "Finished" (synced);
  every other command succeeds.
\<close>

definition syncReplies :: "event list \<Rightarrow> event \<Rightarrow> reply" where
  "syncReplies tr e =
     (if e = cmdMnsyncStatus ''/home/hot/pastel/pastel-cli'' then
        (let n = length (filter (\<lambda>x. x = e) tr) in
         (True, if n < 2 then ''Initial'' else if n = 2 then ''Syncing'' else ''Finished''))
      else (True, []))"

definition syncRemote :: env where
  "syncRemote = scenario syncReplies"

text \<open>
  A Linux machine: the unit files of the system live in \<open>/etc/systemd/system\<close>, those of
  the user below the home directory; nothing fails.
\<close>

definition linuxBox :: platform where
  "linuxBox =
     \<lparr>toolName = toolStr,
      SystemdSystemDir = ''/etc/systemd/system'',
      SystemdUserDir = ''.config/systemd/user'',
      SystemdServicePrefix = ''pastel-'',
      DupeDetectionServiceDir = ''pastel_dupe_detection_service'',
      DupeDetectionSupportFilePath = ''support_files'',
      DupeDetectionConfigFilename = ''config.ini'',
      Join = joinSlash,
      execName = toolStr,
      confFile = (\<lambda>tool workDir. joinSlash [workDir, toolStr tool @ ''.yml'']),
      statFails = (\<lambda>path. False),
      writeFails = (\<lambda>path. False),
      systemctl = (\<lambda>log command serviceName. (True, [])),
      externalIPAddress = Some ''10.0.0.5'',
      GetServiceConfig = (\<lambda>name desc execCmd workDir.
         Some (''Description='' @ desc @ '' ExecStart='' @ execCmd @ '' WorkingDirectory='' @ workDir))\<rparr>"

text \<open>A machine on which only the executable of the rq-service is installed.\<close>

definition freshSystem :: system where
  "freshSystem = \<lparr>files = [''/home/cold/pastel/rq-service'' \<mapsto> ''binary''], systemctlLog = []\<rparr>"

definition regParams :: ResgistrationParams where
  "regParams = \<lparr>FlagDevMode = False, RegConfig = coldConfig\<rparr>"

definition quietInstaller :: installer where
  "quietInstaller =
     \<lparr>createFolderFails = (\<lambda>path force. False),
      createFileFails = (\<lambda>path force. False),
      GenerateRandomString = (\<lambda>n. replicate n CHR ''x''),
      nodeRPCPort = (\<lambda>config. 19932),
      DefaultZksnarkDir = ''/home/cold/.pastel-params'',
      downloadZksnarkParams = (\<lambda>path force. DownloadOk)\<rparr>"

text \<open>The same configuration with two peers.\<close>

definition peeredConfig :: Config where
  "peeredConfig = coldConfig\<lparr>Peers := ''10.0.0.7,10.0.0.8''\<rparr>"

text \<open>
  Masternode start: the registry entry records 10.0.0.5, the address discovered at run
  time is 10.0.0.6.
\<close>

definition movedHost :: env where
  "movedHost = scenario (\<lambda>tr e. if e = GetExternalIPAddress then (True, ''10.0.0.6'') else (True, []))"

definition mnFlags :: flags where
  "mnFlags = \<lparr>flagMasterNodeName = ''mn01'', flagMasterNodeIsCreate = True,
              flagMasterNodeIsUpdate = False, flagMasterNodeIsActivate = False,
              flagMasterNodeConfNew = True, flagMasterNodeConfAdd = False\<rparr>"

text \<open>Every collaborator succeeds and answers with an empty text.\<close>

definition obedient :: env where
  "obedient = scenario (\<lambda>tr e. (True, []))"

text \<open>
  The collateral transaction never shows up among the masternode outputs; the user
  answers the first "Still no collateral transaction" prompt with yes and the second
  with no.
\<close>

definition stillPrompt :: event where
  "stillPrompt = Ask ''Still no collateral transaction. Continue? - Y/N''"

definition noCollateral :: env where
  "noCollateral =
     scenario (\<lambda>tr e. if e = stillPrompt then (\<not> list_ex (\<lambda>x. x = stillPrompt) tr, [])
                       else (True, ''{}''))"

text \<open>The flags after the operator supplied transaction id and index.\<close>

definition sFunded :: state where
  "sFunded = s0\<lparr>flagMasterNodeTxID := ''abcd1234'', flagMasterNodeInd := ''0''\<rparr>"

text \<open>One unsuccessful attempt of the polling loop: the query and the wait.\<close>

definition attempt :: "event list" where
  "attempt = [PastelCLI [''masternode'', ''outputs''], Sleep 10]"






section \<open>Properties\<close>

subsection \<open>The two remote running checks\<close>

lemma loops_agree_want:
  "CheckPastelDRunningRemote_loop E cliPath True failCnt s =
   CheckPastelDRunningRemote_002_loop E cliPath True failCnt s"
proof (induction E cliPath "True" failCnt s rule: CheckPastelDRunningRemote_loop.induct)
  case (1 E cliPath failCnt s)
  show ?case
    apply (subst CheckPastelDRunningRemote_loop.simps)
    apply (subst CheckPastelDRunningRemote_002_loop.simps)
    using 1 by (auto split: prod.splits)
qed

text \<open>
  Claim C2.  The two implementations of \<open>CheckPastelDRunningRemote\<close> differ: when the
  \<open>getinfo\<close> query fails and the check is called with \<open>want = false\<close>, the one in
  \<open>cmd/start_coldhot.go\<close> returns false and the one in the second cold/hot file returns
  true.  Already the first failed query decides, so this covers every execution in which
  all queries fail.  Called with \<open>want = true\<close>, the two return the same result and leave
  the same trace, whatever the remote host answers.
\<close>

theorem running_checks_differ_only_on_stop_wait:
  "(\<not> fst (respond E (trace s) (SshOutput (cliPath @ '' '' @ ''getinfo''))) \<longrightarrow>
      fst (CheckPastelDRunningRemote E cliPath False s) = False \<and>
      fst (CheckPastelDRunningRemote_002 E cliPath False s) = True)
   \<and> CheckPastelDRunningRemote E cliPath True s = CheckPastelDRunningRemote_002 E cliPath True s"
  by (auto simp: CheckPastelDRunningRemote_def CheckPastelDRunningRemote_002_def loops_agree_want
       CheckPastelDRunningRemote_loop.simps [of _ _ False]
       CheckPastelDRunningRemote_002_loop.simps [of _ _ False]
       perform_def split: prod.splits)

theorem running_checks_differ_witness:
  "\<not> fst (respond deadRemote (trace s0) (SshOutput (''/home/hot/pastel/pastel-cli'' @ '' '' @ ''getinfo'')))
   \<and> fst (CheckPastelDRunningRemote deadRemote ''/home/hot/pastel/pastel-cli'' False s0) = False
   \<and> fst (CheckPastelDRunningRemote_002 deadRemote ''/home/hot/pastel/pastel-cli'' False s0) = True
   \<and> CheckPastelDRunningRemote deadRemote ''/home/hot/pastel/pastel-cli'' True s0 =
     CheckPastelDRunningRemote_002 deadRemote ''/home/hot/pastel/pastel-cli'' True s0"
  using running_checks_differ_only_on_stop_wait [of deadRemote s0 "''/home/hot/pastel/pastel-cli''"]
  by (simp add: deadRemote_def scenario_def)

subsection \<open>The remote sync poller\<close>

lemma sync_step_initial:
  assumes "statusAnswer E cli (trace s) prev st" "AssetName st = ''Initial''" "\<not> IsSynced st"
    "resetAccepted E cli (trace s @ [cmdMnsyncStatus cli])"
  shows "checkMasterNodeSyncRemote_loop E cli (Suc fuel) retryCount prev s =
         checkMasterNodeSyncRemote_loop E cli fuel retryCount st (s\<lparr>trace := trace s @ initialRound cli\<rparr>)"
  using assms
  by (auto simp: statusAnswer_def resetAccepted_def perform_def emit_def call_def initialRound_def
      split: prod.splits)

lemma sync_step_wait:
  assumes "statusAnswer E cli (trace s) prev st" "AssetName st \<noteq> ''Initial''" "\<not> IsSynced st"
  shows "checkMasterNodeSyncRemote_loop E cli (Suc fuel) retryCount prev s =
         checkMasterNodeSyncRemote_loop E cli fuel retryCount st (s\<lparr>trace := trace s @ waitRound cli\<rparr>)"
  using assms
  by (auto simp: statusAnswer_def perform_def emit_def waitRound_def split: prod.splits)

lemma sync_step_synced:
  assumes "statusAnswer E cli (trace s) prev st" "AssetName st \<noteq> ''Initial''" "IsSynced st"
  shows "checkMasterNodeSyncRemote_loop E cli (Suc fuel) retryCount prev s =
         (Done None, s\<lparr>trace := trace s @ [cmdMnsyncStatus cli]\<rparr>)"
  using assms
  by (auto simp: statusAnswer_def perform_def emit_def split: prod.splits)

text \<open>
  Claim C3.  When the remote daemon answers the status queries with "Initial", "Initial",
  a status that is neither "Initial" nor synced, and then a synced status, and the two reset
  commands succeed, \<open>checkMasterNodeSyncRemote\<close> returns nil with any fuel of at least four
  queries.  Its trace is: status, reset and two waits of 10 s, twice; status and one wait;
  status.  So exactly two \<open>mnsync reset\<close> commands are issued, one for each "Initial", and
  none for the last two answers.
\<close>

theorem sync_poller_two_resets:
  assumes a: "AssetName a = ''Initial''" "\<not> IsSynced a"
    and b: "AssetName b = ''Initial''" "\<not> IsSynced b"
    and c: "AssetName c \<noteq> ''Initial''" "\<not> IsSynced c"
    and d: "AssetName d \<noteq> ''Initial''" "IsSynced d"
    and q1: "statusAnswer E (remotePastelCli opts) (trace s) zeroStatus a"
    and r1: "resetAccepted E (remotePastelCli opts) (trace s @ [cmdMnsyncStatus (remotePastelCli opts)])"
    and q2: "statusAnswer E (remotePastelCli opts) (trace s @ initialRound (remotePastelCli opts)) a b"
    and r2: "resetAccepted E (remotePastelCli opts)
               (trace s @ initialRound (remotePastelCli opts) @ [cmdMnsyncStatus (remotePastelCli opts)])"
    and q3: "statusAnswer E (remotePastelCli opts)
               (trace s @ initialRound (remotePastelCli opts) @ initialRound (remotePastelCli opts)) b c"
    and q4: "statusAnswer E (remotePastelCli opts)
               (trace s @ initialRound (remotePastelCli opts) @ initialRound (remotePastelCli opts) @
                waitRound (remotePastelCli opts)) c d"
    and fuel: "4 \<le> fuel"
  shows "checkMasterNodeSyncRemote E opts fuel retryCount s =
           (Done None, s\<lparr>trace := trace s @ initialRound (remotePastelCli opts) @
                                  initialRound (remotePastelCli opts) @ waitRound (remotePastelCli opts) @
                                  [cmdMnsyncStatus (remotePastelCli opts)]\<rparr>)
         \<and> length (filter (\<lambda>e. e = cmdMnsyncReset (remotePastelCli opts))
              (newEvents s (snd (checkMasterNodeSyncRemote E opts fuel retryCount s)))) = 2"
proof -
  let ?cli = "remotePastelCli opts"
  have "fuel = Suc (Suc (Suc (Suc (fuel - 4))))"
    using fuel by arith
  then obtain n where n: "fuel = Suc (Suc (Suc (Suc n)))" ..
  let ?s1 = "s\<lparr>trace := trace s @ initialRound ?cli\<rparr>"
  let ?s2 = "?s1\<lparr>trace := trace ?s1 @ initialRound ?cli\<rparr>"
  let ?s3 = "?s2\<lparr>trace := trace ?s2 @ waitRound ?cli\<rparr>"
  have 1: "checkMasterNodeSyncRemote_loop E ?cli fuel retryCount zeroStatus s =
           checkMasterNodeSyncRemote_loop E ?cli (Suc (Suc (Suc n))) retryCount a ?s1"
    unfolding n by (rule sync_step_initial [OF q1 a r1])
  have 2: "checkMasterNodeSyncRemote_loop E ?cli (Suc (Suc (Suc n))) retryCount a ?s1 =
           checkMasterNodeSyncRemote_loop E ?cli (Suc (Suc n)) retryCount b ?s2"
    by (rule sync_step_initial) (use q2 b r2 in simp_all)
  have 3: "checkMasterNodeSyncRemote_loop E ?cli (Suc (Suc n)) retryCount b ?s2 =
           checkMasterNodeSyncRemote_loop E ?cli (Suc n) retryCount c ?s3"
    by (rule sync_step_wait) (use q3 c in simp_all)
  have 4: "checkMasterNodeSyncRemote_loop E ?cli (Suc n) retryCount c ?s3 =
           (Done None, ?s3\<lparr>trace := trace ?s3 @ [cmdMnsyncStatus ?cli]\<rparr>)"
    by (rule sync_step_synced) (use q4 d in simp_all)
  have res: "checkMasterNodeSyncRemote E opts fuel retryCount s =
           (Done None, s\<lparr>trace := trace s @ initialRound ?cli @ initialRound ?cli @ waitRound ?cli @
                                  [cmdMnsyncStatus ?cli]\<rparr>)"
    unfolding checkMasterNodeSyncRemote_def 1 2 3 4 by simp
  have "cmdMnsyncStatus ?cli \<noteq> cmdMnsyncReset ?cli"
    by (simp add: cmdMnsyncStatus_def cmdMnsyncReset_def)
  then show ?thesis
    unfolding res by (simp add: newEvents_def initialRound_def waitRound_def cmdMnsyncReset_def)
qed


theorem sync_poller_two_resets_witness:
  "statusAnswer syncRemote (remotePastelCli hotOpts) (trace s0) zeroStatus
      \<lparr>AssetName = ''Initial'', IsSynced = False\<rparr>
   \<and> checkMasterNodeSyncRemote syncRemote hotOpts 4 0 s0 =
       (Done None, s0\<lparr>trace := trace s0 @ initialRound (remotePastelCli hotOpts) @
                                 initialRound (remotePastelCli hotOpts) @ waitRound (remotePastelCli hotOpts) @
                                 [cmdMnsyncStatus (remotePastelCli hotOpts)]\<rparr>)
   \<and> length (filter (\<lambda>e. e = cmdMnsyncReset (remotePastelCli hotOpts))
        (newEvents s0 (snd (checkMasterNodeSyncRemote syncRemote hotOpts 4 0 s0)))) = 2"
proof -
  let ?cli = "remotePastelCli hotOpts"
  let ?a = "\<lparr>AssetName = ''Initial'', IsSynced = False\<rparr>"
  let ?c = "\<lparr>AssetName = ''Syncing'', IsSynced = False\<rparr>"
  let ?d = "\<lparr>AssetName = ''Finished'', IsSynced = True\<rparr>"
  note defs = statusAnswer_def resetAccepted_def syncRemote_def scenario_def syncReplies_def
      hotOpts_def s0_def initialRound_def waitRound_def cmdMnsyncStatus_def cmdMnsyncReset_def Let_def
  have q1: "statusAnswer syncRemote ?cli (trace s0) zeroStatus ?a"
    by (simp add: defs)
  have r1: "resetAccepted syncRemote ?cli (trace s0 @ [cmdMnsyncStatus ?cli])"
    by (simp add: defs)
  have q2: "statusAnswer syncRemote ?cli (trace s0 @ initialRound ?cli) ?a ?a"
    by (simp add: defs)
  have r2: "resetAccepted syncRemote ?cli (trace s0 @ initialRound ?cli @ [cmdMnsyncStatus ?cli])"
    by (simp add: defs)
  have q3: "statusAnswer syncRemote ?cli (trace s0 @ initialRound ?cli @ initialRound ?cli) ?a ?c"
    by (simp add: defs)
  have q4: "statusAnswer syncRemote ?cli
              (trace s0 @ initialRound ?cli @ initialRound ?cli @ waitRound ?cli) ?c ?d"
    by (simp add: defs)
  have "checkMasterNodeSyncRemote syncRemote hotOpts 4 0 s0 =
       (Done None, s0\<lparr>trace := trace s0 @ initialRound ?cli @ initialRound ?cli @ waitRound ?cli @
                                 [cmdMnsyncStatus ?cli]\<rparr>)
   \<and> length (filter (\<lambda>e. e = cmdMnsyncReset ?cli)
        (newEvents s0 (snd (checkMasterNodeSyncRemote syncRemote hotOpts 4 0 s0)))) = 2"
    by (rule sync_poller_two_resets [OF _ _ _ _ _ _ _ _ q1 r1 q2 r2 q3 q4]) simp_all
  with q1 show ?thesis by blast
qed

subsection \<open>The service manager\<close>

text \<open>
  Claim C8.  For every tool, \<open>StartService\<close> on a manager for which the tool is not
  registered (\<open>IsRegistered\<close> answers false, with or without an error) returns
  "not started" and a nil error and leaves the machine as it is; in particular no
  \<open>systemctl\<close> command is run.  This holds for the Linux systemd manager and for the
  no-op manager, which never reports a tool as registered.
\<close>

theorem start_unregistered_is_noop:
  "\<not> fst (IsRegistered_method P sm app sys) \<Longrightarrow>
     StartService P sm app sys = ((False, None), sys)
     \<and> systemctlLog (snd (StartService P sm app sys)) = systemctlLog sys"
  by (cases sm) (simp_all add: LinuxSystemdManager_StartService_def NoopManager_StartService_def)

theorem start_unregistered_witness:
  "\<not> fst (IsRegistered_method linuxBox (LinuxSystemdManager ''/home/cold'') RQService freshSystem)
   \<and> StartService linuxBox (LinuxSystemdManager ''/home/cold'') RQService freshSystem = ((False, None), freshSystem)
   \<and> systemctlLog (snd (StartService linuxBox (LinuxSystemdManager ''/home/cold'') RQService freshSystem)) =
       systemctlLog freshSystem"
proof -
  have h: "\<not> fst (IsRegistered_method linuxBox (LinuxSystemdManager ''/home/cold'') RQService freshSystem)"
    by (simp add: IsRegistered_def linuxBox_def freshSystem_def ServiceName_def)
  from h start_unregistered_is_noop [OF h] show ?thesis by blast
qed

text \<open>
  Claim C10, evaluated.  On a machine where the rq-service executable is installed and no
  unit file exists, \<open>RegisterService\<close> returns nil and writes the unit file
  \<open>/etc/systemd/system/pastel-rq-service.service\<close>; \<open>IsRegistered\<close> then looks for
  \<open>/home/cold/.config/systemd/user/pastel-rq-service.service\<close> and still answers false.
\<close>

theorem register_does_not_register:
  "fst (RegisterService linuxBox ''/home/cold'' RQService regParams freshSystem) = None
   \<and> files (snd (RegisterService linuxBox ''/home/cold'' RQService regParams freshSystem))
        ''/etc/systemd/system/pastel-rq-service.service'' \<noteq> None
   \<and> IsRegistered linuxBox ''/home/cold'' RQService
        (snd (RegisterService linuxBox ''/home/cold'' RQService regParams freshSystem)) = (False, None)"
  by (simp add: RegisterService_def IsRegistered_def linuxBox_def freshSystem_def ServiceName_def
      regParams_def coldConfig_def requireExec_def CheckFileExist_def WriteFile_def EnableService_def
      runSystemdCmd_def enable_def Let_def)

subsection \<open>RPC credentials of the node\<close>

lemma rpcSettings_keeps:
  "(RPCPort config \<noteq> 0 \<and> \<not> RegenRPC config \<longrightarrow> RPCPort (rpcSettings I config) = RPCPort config)
   \<and> (RPCUser config \<noteq> [] \<and> \<not> RegenRPC config \<longrightarrow> RPCUser (rpcSettings I config) = RPCUser config)
   \<and> (RPCPwd config \<noteq> [] \<and> \<not> RegenRPC config \<longrightarrow> RPCPwd (rpcSettings I config) = RPCPwd config)
   \<and> WorkingDir (rpcSettings I config) = WorkingDir config"
  by (simp add: rpcSettings_def Let_def)

lemma setup_config:
  "setupBasePasteWorkingEnvironment P I config sys = (r, config', sys') \<Longrightarrow>
     config' = config \<or> config' = rpcSettings I config"
  by (auto simp: setupBasePasteWorkingEnvironment_def Let_def split: if_splits prod.splits option.splits)

lemma setup_success_file:
  "setupBasePasteWorkingEnvironment P I config sys = (None, config', sys') \<Longrightarrow>
   OpMode config = ''install'' \<Longrightarrow>
     config' = rpcSettings I config \<and>
     files sys' (Join P [WorkingDir config, PastelConfName]) = Some (pastelConfText config')"
  by (auto simp: setupBasePasteWorkingEnvironment_def updatePastelConfigFile_def WriteFile_def Let_def
      rpcSettings_keeps split: if_splits prod.splits option.splits)

lemma rpcSettings_rest:
  "Network (rpcSettings I config) = Network config \<and> Peers (rpcSettings I config) = Peers config"
  by (simp add: rpcSettings_def Let_def)

text \<open>
  Claim C9.  Whatever \<open>setupBasePasteWorkingEnvironment\<close> returns, an RPC port that is not
  zero, an RPC user and an RPC password that are not empty are left unchanged when the
  regenerate flag is unset; so a value is generated only when it is missing or the flag is
  set.  When the setup runs (install mode) and returns nil, the file \<open>pastel.conf\<close> in the
  working directory is exactly: the \<open>server\<close> and \<open>listen\<close> lines, an empty line, the lines
  \<open>rpcuser=\<close>, \<open>rpcpassword=\<close> and \<open>rpcport=\<close> with the user, the password and the port
  as the setup leaves them, then the network line and one \<open>addnode\<close> line for each peer.
  In particular, when the three values were present and the flag unset, the file holds
  the three lines with the values the configuration had before.
\<close>

theorem rpc_credentials_preserved:
  assumes "setupBasePasteWorkingEnvironment P I config sys = (r, config', sys')"
  shows "(RPCPort config \<noteq> 0 \<and> \<not> RegenRPC config \<longrightarrow> RPCPort config' = RPCPort config)
   \<and> (RPCUser config \<noteq> [] \<and> \<not> RegenRPC config \<longrightarrow> RPCUser config' = RPCUser config)
   \<and> (RPCPwd config \<noteq> [] \<and> \<not> RegenRPC config \<longrightarrow> RPCPwd config' = RPCPwd config)
   \<and> (r = None \<and> OpMode config = ''install'' \<longrightarrow>
        files sys' (Join P [WorkingDir config, PastelConfName]) =
          Some (''server=1'' @ [CHR 0x0A] @
                ''listen=1'' @ [CHR 0x0A, CHR 0x0A] @
                ''rpcuser='' @ RPCUser config' @ [CHR 0x0A] @
                ''rpcpassword='' @ RPCPwd config' @ [CHR 0x0A] @
                ''rpcport='' @ Itoa (RPCPort config') @ [CHR 0x0A] @
                (if Network config = NetworkTestnet then ''testnet=1'' @ [CHR 0x0A] else []) @
                (if Network config = NetworkRegTest then ''regtest=1'' @ [CHR 0x0A] else []) @
                (if Peers config \<noteq> []
                 then concat (map (\<lambda>node. ''addnode='' @ node @ [CHR 0x0A]) (Split_comma (Peers config)))
                 else [])))
   \<and> (r = None \<and> OpMode config = ''install'' \<and> \<not> RegenRPC config
        \<and> RPCPort config \<noteq> 0 \<and> RPCUser config \<noteq> [] \<and> RPCPwd config \<noteq> [] \<longrightarrow>
        (\<exists>rest. files sys' (Join P [WorkingDir config, PastelConfName]) =
          Some (''server=1'' @ [CHR 0x0A] @
                ''listen=1'' @ [CHR 0x0A, CHR 0x0A] @
                ''rpcuser='' @ RPCUser config @ [CHR 0x0A] @
                ''rpcpassword='' @ RPCPwd config @ [CHR 0x0A] @
                ''rpcport='' @ Itoa (RPCPort config) @ [CHR 0x0A] @ rest)))"
proof -
  from setup_config [OF assms] have "config' = config \<or> config' = rpcSettings I config" .
  then have keep: "(RPCPort config \<noteq> 0 \<and> \<not> RegenRPC config \<longrightarrow> RPCPort config' = RPCPort config)
   \<and> (RPCUser config \<noteq> [] \<and> \<not> RegenRPC config \<longrightarrow> RPCUser config' = RPCUser config)
   \<and> (RPCPwd config \<noteq> [] \<and> \<not> RegenRPC config \<longrightarrow> RPCPwd config' = RPCPwd config)"
    using rpcSettings_keeps [of config I] by auto
  have written: "files sys' (Join P [WorkingDir config, PastelConfName]) =
          Some (''server=1'' @ [CHR 0x0A] @
                ''listen=1'' @ [CHR 0x0A, CHR 0x0A] @
                ''rpcuser='' @ RPCUser config' @ [CHR 0x0A] @
                ''rpcpassword='' @ RPCPwd config' @ [CHR 0x0A] @
                ''rpcport='' @ Itoa (RPCPort config') @ [CHR 0x0A] @
                (if Network config = NetworkTestnet then ''testnet=1'' @ [CHR 0x0A] else []) @
                (if Network config = NetworkRegTest then ''regtest=1'' @ [CHR 0x0A] else []) @
                (if Peers config \<noteq> []
                 then concat (map (\<lambda>node. ''addnode='' @ node @ [CHR 0x0A]) (Split_comma (Peers config)))
                 else []))"
    if ok: "r = None" "OpMode config = ''install''"
  proof -
    from setup_success_file [of P I config sys config' sys'] assms ok
    have c: "config' = rpcSettings I config"
      and f: "files sys' (Join P [WorkingDir config, PastelConfName]) = Some (pastelConfText config')"
      by simp_all
    have "Network config' = Network config" "Peers config' = Peers config"
      unfolding c using rpcSettings_rest [of I config] by simp_all
    then show ?thesis
      unfolding f pastelConfText_def by simp
  qed
  have same: "\<exists>rest. files sys' (Join P [WorkingDir config, PastelConfName]) =
          Some (''server=1'' @ [CHR 0x0A] @
                ''listen=1'' @ [CHR 0x0A, CHR 0x0A] @
                ''rpcuser='' @ RPCUser config @ [CHR 0x0A] @
                ''rpcpassword='' @ RPCPwd config @ [CHR 0x0A] @
                ''rpcport='' @ Itoa (RPCPort config) @ [CHR 0x0A] @ rest)"
    if ok: "r = None" "OpMode config = ''install''" and present: "\<not> RegenRPC config"
      "RPCPort config \<noteq> 0" "RPCUser config \<noteq> []" "RPCPwd config \<noteq> []"
  proof -
    from keep present have "RPCPort config' = RPCPort config" "RPCUser config' = RPCUser config"
      "RPCPwd config' = RPCPwd config"
      by simp_all
    with written [OF ok] show ?thesis by simp
  qed
  from keep written same show ?thesis by blast
qed

lemma digits_19932: "Itoa 19932 = ''19932''"
  by (simp add: Itoa_def digitsOf.simps)

theorem rpc_credentials_preserved_witness:
  "OpMode peeredConfig = ''install'' \<and> \<not> RegenRPC peeredConfig
   \<and> RPCPort peeredConfig \<noteq> 0 \<and> RPCUser peeredConfig \<noteq> [] \<and> RPCPwd peeredConfig \<noteq> []
   \<and> fst (setupBasePasteWorkingEnvironment linuxBox quietInstaller peeredConfig freshSystem) = None
   \<and> RPCPort (fst (snd (setupBasePasteWorkingEnvironment linuxBox quietInstaller peeredConfig freshSystem))) = 19932
   \<and> RPCUser (fst (snd (setupBasePasteWorkingEnvironment linuxBox quietInstaller peeredConfig freshSystem))) = ''alice''
   \<and> RPCPwd (fst (snd (setupBasePasteWorkingEnvironment linuxBox quietInstaller peeredConfig freshSystem))) = ''secret''
   \<and> files (snd (snd (setupBasePasteWorkingEnvironment linuxBox quietInstaller peeredConfig freshSystem)))
        ''/home/cold/.pastel/pastel.conf'' =
      Some (''server=1'' @ [CHR 0x0A] @ ''listen=1'' @ [CHR 0x0A, CHR 0x0A] @
            ''rpcuser=alice'' @ [CHR 0x0A] @ ''rpcpassword=secret'' @ [CHR 0x0A] @
            ''rpcport=19932'' @ [CHR 0x0A] @ ''testnet=1'' @ [CHR 0x0A] @
            ''addnode=10.0.0.7'' @ [CHR 0x0A] @ ''addnode=10.0.0.8'' @ [CHR 0x0A])"
proof -
  let ?X = "setupBasePasteWorkingEnvironment linuxBox quietInstaller peeredConfig freshSystem"
  have eq: "?X = (fst ?X, fst (snd ?X), snd (snd ?X))"
    by simp
  have ok: "fst ?X = None"
    by (simp add: setupBasePasteWorkingEnvironment_def updatePastelConfigFile_def WriteFile_def Let_def
        rpcSettings_def linuxBox_def quietInstaller_def peeredConfig_def coldConfig_def)
  have f: "OpMode peeredConfig = ''install''" "\<not> RegenRPC peeredConfig" "RPCPort peeredConfig \<noteq> 0"
    "RPCUser peeredConfig \<noteq> []" "RPCPwd peeredConfig \<noteq> []"
    by (simp_all add: peeredConfig_def coldConfig_def)
  have v: "RPCPort peeredConfig = 19932" "RPCUser peeredConfig = ''alice''" "RPCPwd peeredConfig = ''secret''"
    "Network peeredConfig = ''testnet''" "Peers peeredConfig = ''10.0.0.7,10.0.0.8''"
    by (simp_all add: peeredConfig_def coldConfig_def)
  have p: "Join linuxBox [WorkingDir peeredConfig, PastelConfName] = ''/home/cold/.pastel/pastel.conf''"
    by (simp add: linuxBox_def peeredConfig_def coldConfig_def PastelConfName_def)
  note th = rpc_credentials_preserved [OF eq]
  from th f have g1: "RPCPort (fst (snd ?X)) = 19932"
    unfolding v [symmetric] by blast
  from th f have g2: "RPCUser (fst (snd ?X)) = ''alice''"
    unfolding v [symmetric] by blast
  from th f have g3: "RPCPwd (fst (snd ?X)) = ''secret''"
    unfolding v [symmetric] by blast
  from th ok f(1)
  have "files (snd (snd ?X)) (Join linuxBox [WorkingDir peeredConfig, PastelConfName]) =
          Some (''server=1'' @ [CHR 0x0A] @
                ''listen=1'' @ [CHR 0x0A, CHR 0x0A] @
                ''rpcuser='' @ RPCUser (fst (snd ?X)) @ [CHR 0x0A] @
                ''rpcpassword='' @ RPCPwd (fst (snd ?X)) @ [CHR 0x0A] @
                ''rpcport='' @ Itoa (RPCPort (fst (snd ?X))) @ [CHR 0x0A] @
                (if Network peeredConfig = NetworkTestnet then ''testnet=1'' @ [CHR 0x0A] else []) @
                (if Network peeredConfig = NetworkRegTest then ''regtest=1'' @ [CHR 0x0A] else []) @
                (if Peers peeredConfig \<noteq> []
                 then concat (map (\<lambda>node. ''addnode='' @ node @ [CHR 0x0A]) (Split_comma (Peers peeredConfig)))
                 else []))"
    by blast
  then have g4: "files (snd (snd ?X)) ''/home/cold/.pastel/pastel.conf'' =
      Some (''server=1'' @ [CHR 0x0A] @ ''listen=1'' @ [CHR 0x0A, CHR 0x0A] @
            ''rpcuser=alice'' @ [CHR 0x0A] @ ''rpcpassword=secret'' @ [CHR 0x0A] @
            ''rpcport=19932'' @ [CHR 0x0A] @ ''testnet=1'' @ [CHR 0x0A] @
            ''addnode=10.0.0.7'' @ [CHR 0x0A] @ ''addnode=10.0.0.8'' @ [CHR 0x0A])"
    unfolding p g1 g2 g3 v
    by (simp add: digits_19932 NetworkTestnet_def NetworkRegTest_def)
  show ?thesis
    by (intro conjI) (rule f ok g1 g2 g3 g4)+
qed

subsection \<open>Masternode start and the external address\<close>

text \<open>
  Claim C5.  Let pastel.conf be parsed and the registry entry of the masternode be read,
  with external address \<open>extIP\<close>.  Let \<open>wanIP\<close> be the address used at run time: the
  \<open>--ip\<close> flag when it is given, otherwise the address that the discovery returns.  If
  the two differ, \<open>runStartMasternode\<close> returns the mismatch error and \<open>runPastelNode\<close> is
  not called.
\<close>

theorem ip_mismatch_is_fatal:
  assumes parsed: "fst (respond E (trace s) ParsePastelConf)"
    and entry: "fst (respond E (trace s @ [ParsePastelConf]) (GetMasternodeConfData (flagMasterNodeName fl)))"
               "masternodeConf E (trace s @ [ParsePastelConf]) (flagMasterNodeName fl) = (privKey, extIP, extPort)"
    and wan: "if flagNodeExtIP s \<noteq> [] then wanIP = flagNodeExtIP s
              else respond E (trace s @ [ParsePastelConf, GetMasternodeConfData (flagMasterNodeName fl)])
                     GetExternalIPAddress = (True, wanIP)"
    and differ: "extIP \<noteq> wanIP"
  shows "fst (runStartMasternode E config fl s) = Some (mismatchError extIP wanIP)
         \<and> \<not> list_ex isRunPastelNode (newEvents s (snd (runStartMasternode E config fl s)))"
proof (cases "flagNodeExtIP s = []")
  case True
  with wan have w: "respond E (trace s @ [ParsePastelConf, GetMasternodeConfData (flagMasterNodeName fl)])
                     GetExternalIPAddress = (True, wanIP)"
    by simp
  show ?thesis
    using parsed entry differ True
    by (simp add: runStartMasternode_def perform_def newEvents_def w split_beta)
next
  case False
  with wan have w: "wanIP = flagNodeExtIP s" by simp
  show ?thesis
    using parsed entry differ False
    by (simp add: runStartMasternode_def perform_def newEvents_def w split_beta)
qed

theorem ip_mismatch_is_fatal_witness:
  "fst (runStartMasternode movedHost coldConfig mnFlags s0) = Some (mismatchError ''10.0.0.5'' ''10.0.0.6'')
   \<and> \<not> list_ex isRunPastelNode (newEvents s0 (snd (runStartMasternode movedHost coldConfig mnFlags s0)))"
  by (rule ip_mismatch_is_fatal [where privKey = "''privkey-1''" and extPort = "''9933''"])
     (simp_all add: movedHost_def scenario_def s0_def)

subsection \<open>Rounds of the collateral poll\<close>

lemma noCollateral_outputs:
  "getMasternodeOutputs noCollateral s = (Inr [], emit (PastelCLI [''masternode'', ''outputs'']) s)"
  by (simp add: getMasternodeOutputs_def perform_def emit_def noCollateral_def scenario_def stillPrompt_def)

lemma noCollateral_miss:
  "i < 10 \<Longrightarrow>
   checkCollateral_wait noCollateral (Suc n) i s =
   checkCollateral_wait noCollateral n (i + 1) (s\<lparr>trace := trace s @ attempt\<rparr>)"
  by (simp add: noCollateral_outputs emit_def attempt_def)

lemma noCollateral_misses:
  "int k + i = 10 \<Longrightarrow>
   checkCollateral_wait noCollateral (k + n) i s =
   checkCollateral_wait noCollateral n 10 (s\<lparr>trace := trace s @ concat (replicate k attempt)\<rparr>)"
proof (induction k arbitrary: i s)
  case 0
  then show ?case by simp
next
  case (Suc k)
  let ?s = "s\<lparr>trace := trace s @ attempt\<rparr>"
  from Suc.prems have i: "i < 10" and k: "int k + (i + 1) = 10" by simp_all
  have "checkCollateral_wait noCollateral (Suc k + n) i s =
        checkCollateral_wait noCollateral (Suc (k + n)) i s"
    by (simp del: checkCollateral_wait.simps)
  also have "\<dots> = checkCollateral_wait noCollateral (k + n) (i + 1) ?s"
    using i by (rule noCollateral_miss)
  also have "\<dots> = checkCollateral_wait noCollateral n 10
                       (?s\<lparr>trace := trace ?s @ concat (replicate k attempt)\<rparr>)"
    using k by (rule Suc.IH)
  also have "?s\<lparr>trace := trace ?s @ concat (replicate k attempt)\<rparr> =
             s\<lparr>trace := trace s @ concat (replicate (Suc k) attempt)\<rparr>"
    by simp
  finally show ?case .
qed

lemma respond_still:
  "respond noCollateral tr stillPrompt = (\<not> list_ex (\<lambda>x. x = stillPrompt) tr, [])"
  by (simp add: noCollateral_def scenario_def)

lemma not_still: "PastelCLI args \<noteq> stillPrompt" "Sleep n \<noteq> stillPrompt"
  by (simp_all add: stillPrompt_def)

lemma noCollateral_prompt:
  "checkCollateral_wait noCollateral (Suc n) 10 s =
     (if \<not> list_ex (\<lambda>x. x = stillPrompt) (trace s)
      then checkCollateral_wait noCollateral n 2 (s\<lparr>trace := trace s @ attempt @ [stillPrompt]\<rparr>)
      else (Done (Some (Msg ''user terminated'')), s\<lparr>trace := trace s @ attempt @ [stillPrompt]\<rparr>))"
  by (simp add: noCollateral_outputs emit_def attempt_def perform_def respond_still not_still
      stillPrompt_def [symmetric])

lemma attempts_snoc: "concat (replicate k attempt) @ attempt = concat (replicate (Suc k) attempt)"
  by (induction k) simp_all

lemma no_prompt_in_attempts: "\<not> list_ex (\<lambda>x. x = stillPrompt) (concat (replicate k attempt))"
  by (induction k) (simp_all add: attempt_def not_still)

text \<open>
  Claim C7, evaluated.  The collateral transaction never appears and the user continues
  once.  The first round makes ten queries, each followed by a wait of 10 s, before the
  prompt; the second round makes only nine, because the body sets \<open>i = 1\<close> and the
  post statement of the loop then makes it 2.
\<close>

theorem second_round_has_nine_queries:
  "checkCollateral noCollateral coldConfig 30 sFunded =
     (Done (Some (Msg ''user terminated'')),
      sFunded\<lparr>trace := concat (replicate 10 attempt) @ [stillPrompt] @
                          concat (replicate 9 attempt) @ [stillPrompt]\<rparr>)"
proof -
  let ?s1 = "sFunded\<lparr>trace := concat (replicate 9 attempt)\<rparr>"
  let ?s2 = "sFunded\<lparr>trace := concat (replicate 10 attempt) @ [stillPrompt]\<rparr>"
  let ?s3 = "sFunded\<lparr>trace := concat (replicate 10 attempt) @ [stillPrompt] @ concat (replicate 8 attempt)\<rparr>"
  let ?s4 = "sFunded\<lparr>trace := concat (replicate 10 attempt) @ [stillPrompt] @
                          concat (replicate 9 attempt) @ [stillPrompt]\<rparr>"
  have t0: "trace sFunded = []"
    by (simp add: sFunded_def s0_def)
  have e1: "sFunded\<lparr>trace := trace sFunded @ concat (replicate 9 attempt)\<rparr> = ?s1"
    by (simp add: t0)
  have e2: "?s1\<lparr>trace := trace ?s1 @ attempt @ [stillPrompt]\<rparr> = ?s2"
    using attempts_snoc [of 9] by (simp add: eval_nat_numeral)
  have e3: "?s2\<lparr>trace := trace ?s2 @ concat (replicate 8 attempt)\<rparr> = ?s3"
    by simp
  have e4: "?s3\<lparr>trace := trace ?s3 @ attempt @ [stillPrompt]\<rparr> = ?s4"
    using attempts_snoc [of 8] by (simp add: eval_nat_numeral)
  have p1: "\<not> list_ex (\<lambda>x. x = stillPrompt) (trace ?s1)"
    by (simp add: no_prompt_in_attempts)
  have p3: "list_ex (\<lambda>x. x = stillPrompt) (trace ?s3)"
    by simp
  have "checkCollateral_wait noCollateral 30 1 sFunded =
        checkCollateral_wait noCollateral (9 + Suc 20) 1 sFunded"
    by (simp del: checkCollateral_wait.simps)
  also have "\<dots> = checkCollateral_wait noCollateral (Suc 20) 10 ?s1"
    unfolding e1 [symmetric] by (rule noCollateral_misses) simp
  also have "\<dots> = checkCollateral_wait noCollateral 20 2 ?s2"
    unfolding e2 [symmetric] using p1 by (simp only: noCollateral_prompt simp_thms if_True)
  also have "\<dots> = checkCollateral_wait noCollateral (8 + Suc 11) 2 ?s2"
    by (simp del: checkCollateral_wait.simps)
  also have "\<dots> = checkCollateral_wait noCollateral (Suc 11) 10 ?s3"
    unfolding e3 [symmetric] by (rule noCollateral_misses) simp
  also have "\<dots> = (Done (Some (Msg ''user terminated'')), ?s4)"
    unfolding e4 [symmetric] using p3 by (simp only: noCollateral_prompt simp_thms if_False)
  finally have w: "checkCollateral_wait noCollateral 30 1 sFunded =
     (Done (Some (Msg ''user terminated'')), ?s4)" .
  have f: "flagMasterNodeTxID sFunded \<noteq> []" "flagMasterNodeInd sFunded \<noteq> []"
    by (simp_all add: sFunded_def s0_def)
  show ?thesis
    by (simp add: checkCollateral_def checkCollateral_search_def checkCollateral_fund_def f w
        del: checkCollateral_wait.simps)
qed

subsection \<open>The services on the hot node\<close>

text \<open>
  Claim C6, evaluated.  Every remote command succeeds; the local working directory is
  \<open>/home/cold/.pastel\<close> and the remote one \<open>/home/hot/.pastel\<close>.  The services are started
  in the order rq-service, dd-service, supernode-service, and the configuration file is
  copied to the remote path before the last start; but the \<open>chmod\<close> sent to the remote
  host names the local path of the file, not the path it was copied to.
\<close>

theorem chmod_targets_local_path:
  "Run_services obedient coldConfig hotOpts s0 =
     (Done None,
      s0\<lparr>trace :=
           [SshOutput ''/home/hot/pastelup/pastel-utility start rq-service --work-dir=/home/hot/.pastel'',
            SshOutput ''/home/hot/pastelup/pastel-utility start dd-service --work-dir=/home/hot/.pastel'',
            SshScp ''/home/cold/.pastel/supernode.yml'' ''/home/hot/.pastel/supernode.yml'',
            SshShellCmd ''chmod 755 /home/cold/.pastel/supernode.yml'',
            SshOutput ''/home/hot/pastelup/pastel-utility start supernode-service --work-dir=/home/hot/.pastel'']\<rparr>)"
  by (simp add: Run_services_def runServiceRemote_def andThen_def returned_def wrapErr_def call_def
      perform_def obedient_def scenario_def coldConfig_def hotOpts_def s0_def Let_def
      ReplaceAll_backslash_def)

subsection \<open>Traces of the parameter resolver\<close>

lemma extendsBy_iff: "extendsBy P s s' \<longleftrightarrow> (\<exists>evs. trace s' = trace s @ evs \<and> list_all P evs)"
proof
  assume "extendsBy P s s'"
  then have "trace s' = trace s @ newEvents s s'" "list_all P (newEvents s s')"
    unfolding extendsBy_def newEvents_def by (metis append_take_drop_id, simp)
  then show "\<exists>evs. trace s' = trace s @ evs \<and> list_all P evs" by blast
next
  assume "\<exists>evs. trace s' = trace s @ evs \<and> list_all P evs"
  then show "extendsBy P s s'" by (auto simp: extendsBy_def newEvents_def)
qed

lemma extendsBy_refl [simp]: "extendsBy P s s"
  by (simp add: extendsBy_iff)






lemma extendsBy_flag [simp]:
  "extendsBy P s (s'\<lparr>flagMasterNodeTxID := a\<rparr>) = extendsBy P s s'"
  "extendsBy P s (s'\<lparr>flagMasterNodeInd := b\<rparr>) = extendsBy P s s'"
  "extendsBy P s (s'\<lparr>flagMasterNodePassPhrase := c\<rparr>) = extendsBy P s s'"
  "extendsBy P s (s'\<lparr>flagMasterNodePrivateKey := d\<rparr>) = extendsBy P s s'"
  "extendsBy P s (s'\<lparr>flagMasterNodePastelID := f\<rparr>) = extendsBy P s s'"
  "extendsBy P s (s'\<lparr>flagNodeExtIP := g\<rparr>) = extendsBy P s s'"
  "extendsBy P s (s'\<lparr>flagMasterNodeP2PIP := h\<rparr>) = extendsBy P s s'"
  by (simp_all add: extendsBy_def newEvents_def)

lemma waited_refl [simp]: "waited s s"
  by (simp add: waited_def)


















subsection \<open>Failure while the parameters are prepared\<close>



















end
